theory Spec2Isabelle
  imports Complex_Main "HOL-Library.Char_ord" "HOL-Library.List_Lexorder" "HOL-Library.Multiset"
begin

section \<open>JavaScript values\<close>

text \<open>
  The data-access layer of the repository is JavaScript: payloads are whatever
  \<^verbatim>\<open>response.json()\<close> returns, and the validating constructor tests them
  dynamically. Values are therefore modelled as a datatype of JSON-shaped values together
  with \<^verbatim>\<open>undefined\<close>.

  Numbers: a finite number is an exact real (IEEE rounding and overflow are not
  modelled; on the integers the catalog serves the two agree), next to the three
  non-finite doubles. A string is the list of its code units, each below \<open>256\<close>
  (Latin-1 text). An object is its list of members, the first member of a name being the
  one in force; it has no \<^verbatim>\<open>valueOf\<close> or \<^verbatim>\<open>toString\<close> of its own.
\<close>

datatype jsnum = NaN | NegInf | Fin real | PosInf

datatype jsval =
    JUndefined
  | JNull
  | JBool bool
  | JNum jsnum
  | JStr string
  | JArr "jsval list"
  | JObj "(string \<times> jsval) list"

text \<open>Exceptions: a plain \<^verbatim>\<open>Error\<close> with its message, and the engine's
  \<^verbatim>\<open>TypeError\<close> for a property read on \<^verbatim>\<open>null\<close> or
  \<^verbatim>\<open>undefined\<close>. A computation that may throw returns \<open>error + 'a\<close>.\<close>

datatype error = Error string | TypeError

definition bind :: "error + 'a \<Rightarrow> ('a \<Rightarrow> error + 'b) \<Rightarrow> error + 'b" where
  "bind m f = (case m of Inl e \<Rightarrow> Inl e | Inr x \<Rightarrow> f x)"

fun map_result :: "('a \<Rightarrow> error + 'b) \<Rightarrow> 'a list \<Rightarrow> error + 'b list" where
  "map_result f [] = Inr []"
| "map_result f (x # xs) =
     (case f x of
        Inl e \<Rightarrow> Inl e
      | Inr y \<Rightarrow> (case map_result f xs of Inl e \<Rightarrow> Inl e | Inr ys \<Rightarrow> Inr (y # ys)))"

fun typeof :: "jsval \<Rightarrow> string" where
  "typeof JUndefined = ''undefined''"
| "typeof JNull = ''object''"
| "typeof (JBool b) = ''boolean''"
| "typeof (JNum n) = ''number''"
| "typeof (JStr s) = ''string''"
| "typeof (JArr xs) = ''object''"
| "typeof (JObj fs) = ''object''"

fun truthy :: "jsval \<Rightarrow> bool" where
  "truthy JUndefined = False"
| "truthy JNull = False"
| "truthy (JBool b) = b"
| "truthy (JNum n) = (n \<noteq> NaN \<and> n \<noteq> Fin 0)"
| "truthy (JStr s) = (s \<noteq> [])"
| "truthy (JArr xs) = True"
| "truthy (JObj fs) = True"

fun isArray :: "jsval \<Rightarrow> bool" where
  "isArray (JArr xs) = True"
| "isArray v = False"

text \<open>Property reads, for the property names this program reads (none of them is
  defined on strings, numbers, booleans or arrays): \<open>field v k\<close> is \<^verbatim>\<open>v.k\<close> on
  a \<open>v\<close> that is neither \<^verbatim>\<open>null\<close> nor \<^verbatim>\<open>undefined\<close>, \<open>read\<close>
  is \<^verbatim>\<open>v.k\<close> in general and \<open>opt_read\<close> is \<^verbatim>\<open>v?.k\<close>.\<close>

fun field :: "jsval \<Rightarrow> string \<Rightarrow> jsval" where
  "field (JObj fs) k = (case map_of fs k of Some v \<Rightarrow> v | None \<Rightarrow> JUndefined)"
| "field v k = JUndefined"

definition read :: "jsval \<Rightarrow> string \<Rightarrow> error + jsval" where
  "read v k = (if v = JNull \<or> v = JUndefined then Inl TypeError else Inr (field v k))"

definition opt_read :: "jsval \<Rightarrow> string \<Rightarrow> jsval" where
  "opt_read v k = (if v = JNull \<or> v = JUndefined then JUndefined else field v k)"

subsection \<open>Coercions\<close>

text \<open>
  Three primitives of the language runtime are left unspecified: the numeric value of
  a string (\<^verbatim>\<open>StringToNumber\<close>), the decimal rendering of a number and the
  string an array or a plain object converts to. They are fixed but unknown functions;
  every theorem below holds whatever they are, and no concrete evaluation below goes
  through them.
\<close>

definition StringToNumber :: "string \<Rightarrow> jsnum" where
  "StringToNumber = (SOME f. True)"

definition NumberToString :: "jsnum \<Rightarrow> string" where
  "NumberToString = (SOME f. True)"

definition ObjectToString :: "jsval \<Rightarrow> string" where
  "ObjectToString = (SOME f. True)"

fun ToPrimitive :: "jsval \<Rightarrow> jsval" where
  "ToPrimitive (JArr xs) = JStr (ObjectToString (JArr xs))"
| "ToPrimitive (JObj fs) = JStr (ObjectToString (JObj fs))"
| "ToPrimitive v = v"

fun ToNumber :: "jsval \<Rightarrow> jsnum" where
  "ToNumber JUndefined = NaN"
| "ToNumber JNull = Fin 0"
| "ToNumber (JBool b) = Fin (if b then 1 else 0)"
| "ToNumber (JNum n) = n"
| "ToNumber (JStr s) = StringToNumber s"
| "ToNumber (JArr xs) = StringToNumber (ObjectToString (JArr xs))"
| "ToNumber (JObj fs) = StringToNumber (ObjectToString (JObj fs))"

fun ToString :: "jsval \<Rightarrow> string" where
  "ToString JUndefined = ''undefined''"
| "ToString JNull = ''null''"
| "ToString (JBool b) = (if b then ''true'' else ''false'')"
| "ToString (JNum n) = NumberToString n"
| "ToString (JStr s) = s"
| "ToString (JArr xs) = ObjectToString (JArr xs)"
| "ToString (JObj fs) = ObjectToString (JObj fs)"

definition isNaN :: "jsval \<Rightarrow> bool" where
  "isNaN v = (ToNumber v = NaN)"

fun is_string :: "jsval \<Rightarrow> bool" where
  "is_string (JStr s) = True"
| "is_string v = False"

subsection \<open>Arithmetic and comparison\<close>

fun num_add :: "jsnum \<Rightarrow> jsnum \<Rightarrow> jsnum" where
  "num_add (Fin a) (Fin b) = Fin (a + b)"
| "num_add NaN y = NaN"
| "num_add x NaN = NaN"
| "num_add PosInf NegInf = NaN"
| "num_add NegInf PosInf = NaN"
| "num_add PosInf y = PosInf"
| "num_add x PosInf = PosInf"
| "num_add NegInf y = NegInf"
| "num_add x NegInf = NegInf"

text \<open>The operator \<^verbatim>\<open>+\<close>: concatenation as soon as one operand is a string
  once made primitive, numeric addition otherwise.\<close>

definition js_add :: "jsval \<Rightarrow> jsval \<Rightarrow> jsval" where
  "js_add a b =
     (let p = ToPrimitive a; q = ToPrimitive b
      in if is_string p \<or> is_string q then JStr (ToString p @ ToString q)
         else JNum (num_add (ToNumber p) (ToNumber q)))"

text \<open>The relational comparison of the language: \<open>None\<close> is its undefined result,
  when a \<^verbatim>\<open>NaN\<close> is involved.\<close>

fun num_less :: "jsnum \<Rightarrow> jsnum \<Rightarrow> bool option" where
  "num_less (Fin a) (Fin b) = Some (a < b)"
| "num_less NaN y = None"
| "num_less x NaN = None"
| "num_less NegInf NegInf = Some False"
| "num_less NegInf y = Some True"
| "num_less x NegInf = Some False"
| "num_less PosInf y = Some False"
| "num_less x PosInf = Some True"

definition js_less :: "jsval \<Rightarrow> jsval \<Rightarrow> bool option" where
  "js_less a b =
     (case (ToPrimitive a, ToPrimitive b) of
        (JStr s, JStr t) \<Rightarrow> Some (s < t)
      | (p, q) \<Rightarrow> num_less (ToNumber p) (ToNumber q))"

definition js_lt :: "jsval \<Rightarrow> jsval \<Rightarrow> bool" where
  "js_lt a b = (js_less a b = Some True)"



subsection \<open>Strings\<close>

text \<open>What \<^verbatim>\<open>trim\<close> strips, among the code units below \<open>256\<close>: tab, line feed,
  vertical tab, form feed, carriage return, space and no-break space. What
  \<^verbatim>\<open>toLowerCase\<close> changes there: \<open>A\<close> to \<open>Z\<close>, and the capital letters of
  Latin-1 (\<open>0xC0\<close> to \<open>0xDE\<close> but the multiplication sign \<open>0xD7\<close>).\<close>

definition is_space :: "char \<Rightarrow> bool" where
  "is_space c =
     (c \<in> set [CHR 0x09, CHR 0x0A, CHR 0x0B, CHR 0x0C, CHR 0x0D, CHR '' '', CHR 0xA0])"

definition trim :: "string \<Rightarrow> string" where
  "trim s = rev (dropWhile is_space (rev (dropWhile is_space s)))"

definition lower_char :: "char \<Rightarrow> char" where
  "lower_char c =
     (if (CHR ''A'' \<le> c \<and> c \<le> CHR ''Z'') \<or> (CHR 0xC0 \<le> c \<and> c \<le> CHR 0xDE \<and> c \<noteq> CHR 0xD7)
      then char_of (of_char c + (32::nat)) else c)"

definition toLowerCase :: "string \<Rightarrow> string" where
  "toLowerCase s = map lower_char s"

fun starts_with :: "string \<Rightarrow> string \<Rightarrow> bool" where
  "starts_with [] s = True"
| "starts_with (c # cs) [] = False"
| "starts_with (c # cs) (d # ds) = (c = d \<and> starts_with cs ds)"

fun js_includes :: "string \<Rightarrow> string \<Rightarrow> bool" where
  "js_includes [] q = (q = [])"
| "js_includes (c # cs) q = (starts_with q (c # cs) \<or> js_includes cs q)"

section \<open>The entity: class Pokemon\<close>

record Pokemon =
  id' :: jsnum
  name :: string
  height :: jsnum
  weight :: jsnum
  base_experience :: jsnum
  types :: "jsval list"
  abilities :: "jsval list"
  stats :: "jsval list"
  sprites :: jsval
  cries :: jsval
  imageUrl :: jsval
  typeNames :: "jsval list"
  abilityNames :: "jsval list"
  primaryType :: jsval
  statTotal :: jsval

text \<open>The four validators take \<^verbatim>\<open>required\<close> as their third parameter; it
  defaults to \<^verbatim>\<open>true\<close> in \<^verbatim>\<open>validateString\<close> and
  \<^verbatim>\<open>validateNumber\<close> and to \<^verbatim>\<open>false\<close> in \<^verbatim>\<open>validateArray\<close> and
  \<^verbatim>\<open>validateObject\<close>.\<close>

definition validateString :: "jsval \<Rightarrow> string \<Rightarrow> bool \<Rightarrow> error + string" where
  "validateString v fieldName required =
     (if required \<and> (\<not> truthy v \<or> typeof v \<noteq> ''string''
                     \<or> (case v of JStr s \<Rightarrow> trim s = [] | _ \<Rightarrow> False))
      then Inl (Error (fieldName @ '' is required and must be a non-empty string''))
      else Inr (case v of JStr s \<Rightarrow> trim s | _ \<Rightarrow> []))"

definition validateNumber :: "jsval \<Rightarrow> string \<Rightarrow> bool \<Rightarrow> error + jsnum" where
  "validateNumber v fieldName required =
     (if required \<and> (v = JNull \<or> v = JUndefined \<or> isNaN v)
      then Inl (Error (fieldName @ '' is required and must be a valid number''))
      else Inr (if truthy (JNum (ToNumber v)) then ToNumber v else Fin 0))"

definition validateArray :: "jsval \<Rightarrow> string \<Rightarrow> bool \<Rightarrow> error + jsval list" where
  "validateArray v fieldName required =
     (if required \<and> (\<not> isArray v \<or> (case v of JArr xs \<Rightarrow> length xs = 0 | _ \<Rightarrow> False))
      then Inl (Error (fieldName @ '' is required and must be a non-empty array''))
      else Inr (case v of JArr xs \<Rightarrow> xs | _ \<Rightarrow> []))"

definition validateObject :: "jsval \<Rightarrow> string \<Rightarrow> bool \<Rightarrow> error + jsval" where
  "validateObject v fieldName required =
     (if required \<and> (\<not> truthy v \<or> typeof v \<noteq> ''object'' \<or> isArray v)
      then Inl (Error (fieldName @ '' is required and must be an object''))
      else Inr (if truthy v \<and> typeof v = ''object'' \<and> \<not> isArray v then v else JObj []))"

definition getImageUrl :: "jsval \<Rightarrow> jsval" where
  "getImageUrl spr =
     (if truthy (opt_read (opt_read (opt_read spr ''other'') ''official-artwork'') ''front_default'')
      then opt_read (opt_read (opt_read spr ''other'') ''official-artwork'') ''front_default''
      else if truthy (opt_read (opt_read (opt_read spr ''other'') ''dream_world'') ''front_default'')
      then opt_read (opt_read (opt_read spr ''other'') ''dream_world'') ''front_default''
      else if truthy (opt_read spr ''front_default'')
      then opt_read spr ''front_default''
      else JStr ''/placeholder-pokemon.png'')"

text \<open>The callback of \<^verbatim>\<open>getTypeNames\<close> and \<^verbatim>\<open>getAbilityNames\<close>:
  \<^verbatim>\<open>typeof x === 'object' && x[k] ? x[k].name : x\<close>. On a \<^verbatim>\<open>null\<close> entry
  the test \<^verbatim>\<open>typeof\<close> passes and the read throws.\<close>

definition entry_name :: "string \<Rightarrow> jsval \<Rightarrow> error + jsval" where
  "entry_name k x =
     (if typeof x = ''object''
      then bind (read x k) (\<lambda>inner. Inr (if truthy inner then field inner ''name'' else x))
      else Inr x)"

definition getTypeNames :: "jsval list \<Rightarrow> error + jsval list" where
  "getTypeNames tys = bind (map_result (entry_name ''type'') tys) (\<lambda>ns. Inr (filter truthy ns))"

definition getAbilityNames :: "jsval list \<Rightarrow> error + jsval list" where
  "getAbilityNames abl =
     bind (map_result (entry_name ''ability'') abl) (\<lambda>ns. Inr (filter truthy ns))"

definition getPrimaryType :: "jsval list \<Rightarrow> jsval" where
  "getPrimaryType names =
     (case names of [] \<Rightarrow> JStr ''unknown'' | n # ns \<Rightarrow> if truthy n then n else JStr ''unknown'')"

text \<open>\<^verbatim>\<open>getStatTotal\<close>: the reducer adds
  \<^verbatim>\<open>typeof stat === 'object' && stat.base_stat ? stat.base_stat : 0\<close> to the
  running total, starting from \<open>0\<close>.\<close>

definition stat_value :: "jsval \<Rightarrow> error + jsval" where
  "stat_value stat =
     (if typeof stat = ''object''
      then bind (read stat ''base_stat'') (\<lambda>b. Inr (if truthy b then b else JNum (Fin 0)))
      else Inr (JNum (Fin 0)))"

fun reduce_stats :: "jsval \<Rightarrow> jsval list \<Rightarrow> error + jsval" where
  "reduce_stats acc [] = Inr acc"
| "reduce_stats acc (stat # rest) =
     (case stat_value stat of
        Inl e \<Rightarrow> Inl e
      | Inr v \<Rightarrow> reduce_stats (js_add acc v) rest)"

definition getStatTotal :: "jsval list \<Rightarrow> error + jsval" where
  "getStatTotal sts = reduce_stats (JNum (Fin 0)) sts"

text \<open>\<^verbatim>\<open>validateAndSet\<close>: \<^verbatim>\<open>id\<close> and \<^verbatim>\<open>name\<close> are validated
  with the default \<^verbatim>\<open>required = true\<close>, the three optional numbers and
  \<^verbatim>\<open>cries\<close> with an explicit \<^verbatim>\<open>false\<close>, the other containers with the
  default \<^verbatim>\<open>false\<close>.\<close>

definition validateAndSet :: "jsval \<Rightarrow> error + Pokemon" where
  "validateAndSet data =
     bind (read data ''id'') (\<lambda>raw_id.
     bind (validateNumber raw_id ''ID'' True) (\<lambda>v_id.
     bind (validateString (field data ''name'') ''Name'' True) (\<lambda>v_name.
     bind (validateNumber (field data ''height'') ''Height'' False) (\<lambda>v_height.
     bind (validateNumber (field data ''weight'') ''Weight'' False) (\<lambda>v_weight.
     bind (validateNumber (field data ''base_experience'') ''Base Experience'' False) (\<lambda>v_exp.
     bind (validateArray (field data ''types'') ''Types'' False) (\<lambda>v_types.
     bind (validateArray (field data ''abilities'') ''Abilities'' False) (\<lambda>v_abilities.
     bind (validateArray (field data ''stats'') ''Stats'' False) (\<lambda>v_stats.
     bind (validateObject (field data ''sprites'') ''Sprites'' False) (\<lambda>v_sprites.
     bind (validateObject (field data ''cries'') ''Cries'' False) (\<lambda>v_cries.
     bind (getTypeNames v_types) (\<lambda>v_typeNames.
     bind (getAbilityNames v_abilities) (\<lambda>v_abilityNames.
     bind (getStatTotal v_stats) (\<lambda>v_total.
       Inr \<lparr> id' = v_id, name = v_name, height = v_height, weight = v_weight,
             base_experience = v_exp, types = v_types, abilities = v_abilities,
             stats = v_stats, sprites = v_sprites, cries = v_cries,
             imageUrl = getImageUrl v_sprites, typeNames = v_typeNames,
             abilityNames = v_abilityNames, primaryType = getPrimaryType v_typeNames,
             statTotal = v_total \<rparr>))))))))))))))"

text \<open>The constructor \<^verbatim>\<open>constructor(data = {})\<close>, and \<^verbatim>\<open>Pokemon.fromAPI\<close>,
  which logs and rethrows whatever the constructor throws.\<close>

definition new_Pokemon :: "jsval \<Rightarrow> error + Pokemon" where
  "new_Pokemon data = validateAndSet (if data = JUndefined then JObj [] else data)"



section \<open>The API service: class PokemonApiService\<close>

definition maxRetries :: nat where
  "maxRetries = 3"

definition retryDelay :: nat where
  "retryDelay = 1000"

text \<open>A number inside a template literal: the decimal digits of a natural number.\<close>

fun show_nat :: "nat \<Rightarrow> string" where
  "show_nat n =
     (if n < 10 then [char_of (48 + n)] else show_nat (n div 10) @ [char_of (48 + n mod 10)])"

declare show_nat.simps [simp del]

subsection \<open>\<^verbatim>\<open>makeRequest\<close>\<close>

text \<open>
  One attempt of \<^verbatim>\<open>makeRequest\<close> is one call of \<^verbatim>\<open>fetch\<close>: it is rejected
  (a network failure, with the message of its error), or it brings a response with its
  \<^verbatim>\<open>ok\<close> flag, \<^verbatim>\<open>status\<close>, \<^verbatim>\<open>statusText\<close> and what
  \<^verbatim>\<open>response.json()\<close> settles to (the message of the parse error, or the data).
  The network is a function from the value of \<^verbatim>\<open>retries\<close> to the attempt made
  at that value.
\<close>

datatype attempt =
    NetworkFailure string
  | HttpResponse bool nat string "string + jsval"

text \<open>The body of the \<^verbatim>\<open>try\<close> block: the message of what it throws, or the
  data it returns.\<close>

fun attempt_result :: "attempt \<Rightarrow> string + jsval" where
  "attempt_result (NetworkFailure msg) = Inl msg"
| "attempt_result (HttpResponse ok status statusText body) =
     (if \<not> ok then Inl (''HTTP '' @ show_nat status @ '': '' @ statusText) else body)"

text \<open>\<^verbatim>\<open>makeRequest(url, retries = 0)\<close> returns what its promise settles to, and
  the delays it waited, in order, in milliseconds.\<close>

function makeRequest :: "(nat \<Rightarrow> attempt) \<Rightarrow> string \<Rightarrow> nat \<Rightarrow> (error + jsval) \<times> nat list" where
  "makeRequest net url retries =
     (case attempt_result (net retries) of
        Inr data \<Rightarrow> (Inr data, [])
      | Inl msg \<Rightarrow>
          if retries < maxRetries
          then (case makeRequest net url (retries + 1) of
                  (r, waits) \<Rightarrow> (r, retryDelay * 2 ^ retries # waits))
          else (Inl (Error (''Failed to fetch '' @ url @ '' after '' @ show_nat maxRetries
                             @ '' retries: '' @ msg)), []))"
  by pat_completeness auto
termination
  by (relation "measure (\<lambda>(net, url, retries). maxRetries - retries)") auto

declare makeRequest.simps [simp del]

subsection \<open>Fetching entities\<close>

text \<open>
  Behind its guard, \<^verbatim>\<open>getPokemonById\<close> consults the cache and otherwise queues a
  request that runs \<^verbatim>\<open>makeRequest\<close> and \<^verbatim>\<open>Pokemon.fromAPI\<close>. For the
  operations that aggregate several fetches this part is a parameter: \<open>remote k v\<close> is
  what the promise of the \<open>k\<close>-th call issued by the operation settles to, for the
  identifier \<open>v\<close>.
\<close>

type_synonym remote = "nat \<Rightarrow> jsval \<Rightarrow> error + Pokemon"

definition getPokemonById :: "remote \<Rightarrow> nat \<Rightarrow> jsval \<Rightarrow> error + Pokemon" where
  "getPokemonById remote k v =
     (if \<not> truthy v \<or> (typeof v \<noteq> ''number'' \<and> typeof v \<noteq> ''string'')
      then Inl (Error ''Invalid Pokemon ID provided'')
      else remote k v)"

definition getPokemonByName :: "remote \<Rightarrow> nat \<Rightarrow> jsval \<Rightarrow> error + Pokemon" where
  "getPokemonByName remote k v =
     (if \<not> truthy v \<or> typeof v \<noteq> ''string''
      then Inl (Error ''Invalid Pokemon name provided'')
      else getPokemonById remote k (JStr (trim (toLowerCase (ToString v)))))"

text \<open>\<^verbatim>\<open>getPokemonList(limit, offset)\<close>; \<open>remote_list\<close> is what lies behind its
  guards (cache, queue and \<^verbatim>\<open>makeRequest\<close>): the \<^verbatim>\<open>results\<close> of the
  listing, each entry a name and a url, or the error the request ends with.\<close>

type_synonym list_entry = "string \<times> string"

type_synonym remote_list = "int \<Rightarrow> int \<Rightarrow> error + list_entry list"

definition getPokemonList :: "remote_list \<Rightarrow> int \<Rightarrow> int \<Rightarrow> error + list_entry list" where
  "getPokemonList remote_list limit offset =
     (if limit < 1 \<or> limit > 1000 then Inl (Error ''Limit must be between 1 and 1000'')
      else if offset < 0 then Inl (Error ''Offset must be non-negative'')
      else remote_list limit offset)"

subsection \<open>\<^verbatim>\<open>getPokemonBatch\<close>\<close>

text \<open>\<^verbatim>\<open>Promise.allSettled\<close> waits for every promise; the result keeps the
  fulfilled values in the order of the identifiers and writes one line to the console
  for each rejected one (the identifier and the reason). The function returns what its
  promise settles to and the console lines.\<close>

fun fulfilled :: "(error + 'a) list \<Rightarrow> 'a list" where
  "fulfilled [] = []"
| "fulfilled (Inr v # rs) = v # fulfilled rs"
| "fulfilled (Inl e # rs) = fulfilled rs"

fun rejected :: "('i \<times> (error + 'a)) list \<Rightarrow> ('i \<times> error) list" where
  "rejected [] = []"
| "rejected ((i, Inr v) # rs) = rejected rs"
| "rejected ((i, Inl e) # rs) = (i, e) # rejected rs"

definition getPokemonBatch :: "remote \<Rightarrow> jsval \<Rightarrow> (error + Pokemon list) \<times> (jsval \<times> error) list" where
  "getPokemonBatch remote ids =
     (case ids of
        JArr xs \<Rightarrow>
          if length xs = 0 then (Inl (Error ''IDs must be a non-empty array''), [])
          else (let results = map (\<lambda>(k, v). getPokemonById remote k v) (enumerate 0 xs)
                in (Inr (fulfilled results), rejected (zip xs results)))
      | _ \<Rightarrow> (Inl (Error ''IDs must be a non-empty array''), []))"

subsection \<open>\<^verbatim>\<open>getRandomPokemon\<close>\<close>






subsection \<open>\<^verbatim>\<open>searchPokemon\<close>\<close>

text \<open>\<^verbatim>\<open>xs.slice(0, limit)\<close> for an integer \<open>limit\<close>: a negative limit counts
  from the end.\<close>

definition slice0 :: "'a list \<Rightarrow> int \<Rightarrow> 'a list" where
  "slice0 xs limit =
     (if limit < 0 then take (nat (int (length xs) + limit)) xs else take (nat limit) xs)"

text \<open>The exact lookup is call \<open>0\<close>; the fetches of the matches are calls \<open>1, 2, \<dots>\<close>
  in the order of the matches. The parameter \<open>limit\<close> is optional, with default
  \<open>20\<close>.\<close>

definition searchPokemon ::
  "remote \<Rightarrow> remote_list \<Rightarrow> jsval \<Rightarrow> int option \<Rightarrow> error + Pokemon list" where
  "searchPokemon remote remote_list query limit =
     (if \<not> truthy query \<or> typeof query \<noteq> ''string''
      then Inl (Error ''Search query must be a non-empty string'')
      else
        (let sanitizedQuery = trim (toLowerCase (ToString query))
         in case getPokemonByName remote 0 (JStr sanitizedQuery) of
              Inr directMatch \<Rightarrow> Inr [directMatch]
            | Inl e \<Rightarrow>
               (case getPokemonList remote_list 1000 0 of
                  Inl e' \<Rightarrow> Inl e'
                | Inr results \<Rightarrow>
                   (let matches =
                          slice0 (filter (\<lambda>entry. js_includes (fst entry) sanitizedQuery) results)
                            (case limit of None \<Rightarrow> 20 | Some l \<Rightarrow> l)
                    in if length matches = 0 then Inr []
                       else Inr (fulfilled
                              (map (\<lambda>(k, m). getPokemonByName remote (Suc k) (JStr (fst m)))
                                 (enumerate 0 matches)))))))"

subsection \<open>\<^verbatim>\<open>queueRequest\<close> and \<^verbatim>\<open>processQueue\<close>\<close>

text \<open>
  The queue runs on one event loop, so its code runs in atomic pieces between two
  \<^verbatim>\<open>await\<close>s. A queued task is its identity (the promise that
  \<^verbatim>\<open>queueRequest\<close> returned, with its \<^verbatim>\<open>resolve\<close> and
  \<^verbatim>\<open>reject\<close>) and what its \<^verbatim>\<open>requestFn\<close> settles to. A run of
  \<^verbatim>\<open>processQueue\<close> that has passed the guard is a worker, suspended either at
  \<^verbatim>\<open>await requestFn()\<close> or at \<^verbatim>\<open>await this.delay(100)\<close>, whose timer is
  due at a given time. The state lists the workers: that there is never more than one
  is a theorem, not a choice of the model. Time is in milliseconds.
\<close>

record task =
  tid :: nat
  outcome :: "error + jsval"

datatype activity = AwaitRequest task | AwaitDelay nat

datatype log_entry =
    Started task nat
  | Resolved task jsval nat
  | Rejected task error nat

record service =
  requestQueue :: "task list"
  isProcessingQueue :: bool
  workers :: "activity list"
  now :: nat
  trace :: "log_entry list"

definition new_service :: service where
  "new_service =
     \<lparr> requestQueue = [], isProcessingQueue = False, workers = [], now = 0, trace = [] \<rparr>"

text \<open>\<^verbatim>\<open>processQueue\<close> up to its first \<^verbatim>\<open>await\<close>: the guard, the flag, the
  first test of the loop (the queue is not empty there), \<^verbatim>\<open>shift\<close> and the call
  of \<^verbatim>\<open>requestFn\<close>.\<close>

definition processQueue :: "service \<Rightarrow> service" where
  "processQueue s =
     (if isProcessingQueue s \<or> length (requestQueue s) = 0 then s
      else (case requestQueue s of
              [] \<Rightarrow> s
            | t # rest \<Rightarrow>
                s\<lparr> isProcessingQueue := True, requestQueue := rest,
                   workers := workers s @ [AwaitRequest t],
                   trace := trace s @ [Started t (now s)] \<rparr>))"

definition queueRequest :: "task \<Rightarrow> service \<Rightarrow> service" where
  "queueRequest t s = processQueue (s\<lparr> requestQueue := requestQueue s @ [t] \<rparr>)"

text \<open>The awaited \<^verbatim>\<open>requestFn()\<close> of worker \<open>i\<close> settles: the task's own
  \<^verbatim>\<open>resolve\<close> or \<^verbatim>\<open>reject\<close> is called, then the worker starts the
  timer of \<^verbatim>\<open>delay(100)\<close> and suspends.\<close>

definition request_settles :: "nat \<Rightarrow> service \<Rightarrow> service option" where
  "request_settles i s =
     (if i < length (workers s)
      then (case workers s ! i of
              AwaitRequest t \<Rightarrow>
                Some (s\<lparr> trace := trace s @
                            [case outcome t of
                               Inr v \<Rightarrow> Resolved t v (now s)
                             | Inl e \<Rightarrow> Rejected t e (now s)],
                         workers := (workers s)[i := AwaitDelay (now s + 100)] \<rparr>)
            | AwaitDelay due \<Rightarrow> None)
      else None)"

text \<open>The timer of worker \<open>i\<close> fires, not before it is due: the worker tests the loop
  condition, and either takes the head of the queue or resets the flag and ends.\<close>

definition timer_fires :: "nat \<Rightarrow> service \<Rightarrow> service option" where
  "timer_fires i s =
     (if i < length (workers s)
      then (case workers s ! i of
              AwaitRequest t \<Rightarrow> None
            | AwaitDelay due \<Rightarrow>
                if due \<le> now s
                then (case requestQueue s of
                        [] \<Rightarrow>
                          Some (s\<lparr> isProcessingQueue := False,
                                   workers := take i (workers s) @ drop (Suc i) (workers s) \<rparr>)
                      | t # rest \<Rightarrow>
                          Some (s\<lparr> requestQueue := rest,
                                   workers := (workers s)[i := AwaitRequest t],
                                   trace := trace s @ [Started t (now s)] \<rparr>))
                else None)
      else None)"

datatype event = Enqueue task | Settles nat | Fires nat | Elapse nat

fun step :: "event \<Rightarrow> service \<Rightarrow> service option" where
  "step (Enqueue t) s = Some (queueRequest t s)"
| "step (Settles i) s = request_settles i s"
| "step (Fires i) s = timer_fires i s"
| "step (Elapse d) s = Some (s\<lparr> now := now s + d \<rparr>)"

fun run :: "event list \<Rightarrow> service \<Rightarrow> service option" where
  "run [] s = Some s"
| "run (e # es) s = (case step e s of None \<Rightarrow> None | Some s' \<Rightarrow> run es s')"

text \<open>What a trace must look like, in the words of the specification: operations are
  started and settled in turn, one at a time; each task is settled with its own outcome;
  and the next operation starts no earlier than \<open>100\<close> ms after the previous one has
  settled. \<open>spec_trace gate busy tr\<close> reads the trace \<open>tr\<close> from a point where the
  next start is allowed from time \<open>gate\<close> on and \<open>busy\<close> is the task in progress, if
  any, with its starting time.\<close>

fun spec_trace :: "nat \<Rightarrow> (task \<times> nat) option \<Rightarrow> log_entry list \<Rightarrow> bool" where
  "spec_trace gate busy [] = True"
| "spec_trace gate None (Started t tm # tr) = (gate \<le> tm \<and> spec_trace gate (Some (t, tm)) tr)"
| "spec_trace gate (Some b) (Started t tm # tr) = False"
| "spec_trace gate (Some (t', since)) (Resolved t v tm # tr) =
     (t = t' \<and> outcome t = Inr v \<and> since \<le> tm \<and> spec_trace (tm + 100) None tr)"
| "spec_trace gate (Some (t', since)) (Rejected t e tm # tr) =
     (t = t' \<and> outcome t = Inl e \<and> since \<le> tm \<and> spec_trace (tm + 100) None tr)"
| "spec_trace gate None (Resolved t v tm # tr) = False"
| "spec_trace gate None (Rejected t e tm # tr) = False"

fun started :: "log_entry list \<Rightarrow> task list" where
  "started [] = []"
| "started (Started t tm # tr) = t # started tr"
| "started (Resolved t v tm # tr) = started tr"
| "started (Rejected t e tm # tr) = started tr"

fun settled :: "log_entry list \<Rightarrow> (task \<times> (error + jsval)) list" where
  "settled [] = []"
| "settled (Started t tm # tr) = settled tr"
| "settled (Resolved t v tm # tr) = (t, Inr v) # settled tr"
| "settled (Rejected t e tm # tr) = (t, Inl e) # settled tr"

fun enqueued :: "event list \<Rightarrow> task list" where
  "enqueued [] = []"
| "enqueued (Enqueue t # es) = t # enqueued es"
| "enqueued (e # es) = enqueued es"

section \<open>The controller: class PokemonController\<close>

text \<open>Of the controller's state, the list of entities and the sort settings.\<close>

record controller =
  pokemon :: "Pokemon list"
  sortBy :: string
  sortOrder :: string






section \<open>Example payloads\<close>

text \<open>Payloads as the catalog serves them (cut down to the members the constructor
  reads), and the entities the constructor builds from them.\<close>

definition stat_entry :: "string \<Rightarrow> real \<Rightarrow> jsval" where
  "stat_entry nm b =
     JObj [(''base_stat'', JNum (Fin b)), (''effort'', JNum (Fin 0)),
           (''stat'', JObj [(''name'', JStr nm)])]"

definition stat_block :: "real list \<Rightarrow> jsval list" where
  "stat_block bs =
     map (\<lambda>(nm, b). stat_entry nm b)
       (zip [''hp'', ''attack'', ''defense'', ''special-attack'', ''special-defense'', ''speed''] bs)"

definition bulbasaur :: jsval where
  "bulbasaur =
     JObj [(''id'', JNum (Fin 1)), (''name'', JStr ''bulbasaur''),
           (''height'', JNum (Fin 7)), (''weight'', JNum (Fin 69)),
           (''base_experience'', JNum (Fin 64)),
           (''types'', JArr [JObj [(''slot'', JNum (Fin 1)), (''type'', JObj [(''name'', JStr ''grass'')])],
                             JObj [(''slot'', JNum (Fin 2)), (''type'', JObj [(''name'', JStr ''poison'')])]]),
           (''abilities'', JArr [JObj [(''ability'', JObj [(''name'', JStr ''overgrow'')])]]),
           (''stats'', JArr (stat_block [45, 49, 49, 65, 65, 45])),
           (''sprites'', JObj [(''front_default'', JStr ''sprites/pokemon/1.png'')])]"

definition bulbasaur_entity :: Pokemon where
  "bulbasaur_entity =
     \<lparr> id' = Fin 1, name = ''bulbasaur'', height = Fin 7, weight = Fin 69,
       base_experience = Fin 64,
       types = [JObj [(''slot'', JNum (Fin 1)), (''type'', JObj [(''name'', JStr ''grass'')])],
                JObj [(''slot'', JNum (Fin 2)), (''type'', JObj [(''name'', JStr ''poison'')])]],
       abilities = [JObj [(''ability'', JObj [(''name'', JStr ''overgrow'')])]],
       stats = stat_block [45, 49, 49, 65, 65, 45],
       sprites = JObj [(''front_default'', JStr ''sprites/pokemon/1.png'')],
       cries = JObj [],
       imageUrl = JStr ''sprites/pokemon/1.png'',
       typeNames = [JStr ''grass'', JStr ''poison''],
       abilityNames = [JStr ''overgrow''],
       primaryType = JStr ''grass'',
       statTotal = JNum (Fin 318) \<rparr>"

definition dragonite :: jsval where
  "dragonite =
     JObj [(''id'', JNum (Fin 149)), (''name'', JStr ''dragonite''),
           (''types'', JArr [JObj [(''type'', JObj [(''name'', JStr ''dragon'')])]]),
           (''stats'', JArr (stat_block [91, 134, 95, 100, 100, 80]))]"

definition dragonite_entity :: Pokemon where
  "dragonite_entity =
     \<lparr> id' = Fin 149, name = ''dragonite'', height = Fin 0, weight = Fin 0,
       base_experience = Fin 0,
       types = [JObj [(''type'', JObj [(''name'', JStr ''dragon'')])]],
       abilities = [],
       stats = stat_block [91, 134, 95, 100, 100, 80],
       sprites = JObj [], cries = JObj [],
       imageUrl = JStr ''/placeholder-pokemon.png'',
       typeNames = [JStr ''dragon''], abilityNames = [],
       primaryType = JStr ''dragon'',
       statTotal = JNum (Fin 600) \<rparr>"

text \<open>Payloads the catalog would not serve: a negative height, and \<^verbatim>\<open>types\<close>
  that is a string rather than a sequence.\<close>

definition negative_height :: jsval where
  "negative_height =
     JObj [(''id'', JNum (Fin 1)), (''name'', JStr ''bulbasaur''), (''height'', JNum (Fin (- 7)))]"

definition negative_height_entity :: Pokemon where
  "negative_height_entity =
     \<lparr> id' = Fin 1, name = ''bulbasaur'', height = Fin (- 7), weight = Fin 0,
       base_experience = Fin 0, types = [], abilities = [], stats = [],
       sprites = JObj [], cries = JObj [],
       imageUrl = JStr ''/placeholder-pokemon.png'',
       typeNames = [], abilityNames = [], primaryType = JStr ''unknown'',
       statTotal = JNum (Fin 0) \<rparr>"






text \<open>Two networks: one that fails twice (a rejected \<^verbatim>\<open>fetch\<close>, then a \<open>503\<close>)
  before it answers, and one that answers \<open>404\<close> every time.\<close>

definition flaky_net :: "nat \<Rightarrow> attempt" where
  "flaky_net j =
     (if j = 0 then NetworkFailure ''Failed to fetch''
      else if j = 1 then HttpResponse False 503 ''Service Unavailable'' (Inl '''')
      else HttpResponse True 200 ''OK'' (Inr bulbasaur))"

definition dead_net :: "nat \<Rightarrow> attempt" where
  "dead_net j = HttpResponse False 404 ''Not Found'' (Inl '''')"

text \<open>A catalog that knows the identifiers \<open>1\<close> and \<open>4\<close> only, one that serves an
  entity under every identifier, and a tape of draws with a repetition.\<close>

definition charmander_entity :: Pokemon where
  "charmander_entity =
     \<lparr> id' = Fin 4, name = ''charmander'', height = Fin 6, weight = Fin 85,
       base_experience = Fin 62,
       types = [JObj [(''type'', JObj [(''name'', JStr ''fire'')])]],
       abilities = [], stats = stat_block [39, 52, 43, 60, 50, 65],
       sprites = JObj [], cries = JObj [],
       imageUrl = JStr ''/placeholder-pokemon.png'',
       typeNames = [JStr ''fire''], abilityNames = [],
       primaryType = JStr ''fire'',
       statTotal = JNum (Fin 309) \<rparr>"

definition not_found :: error where
  "not_found = Error (''Failed to fetch https://pokeapi.co/api/v2/pokemon/99999''
                      @ '' after 3 retries: HTTP 404: Not Found'')"

definition small_catalog :: remote where
  "small_catalog k v =
     (if v = JNum (Fin 1) then Inr bulbasaur_entity
      else if v = JNum (Fin 4) then Inr charmander_entity
      else Inl not_found)"




text \<open>A listing of four names, and two catalogs that answer by name: one serves the
  three names it is asked below, the other fails on \<open>charizard\<close>.\<close>

definition named :: "real \<Rightarrow> string \<Rightarrow> Pokemon" where
  "named i n = bulbasaur_entity\<lparr> id' := Fin i, name := n \<rparr>"

definition kanto_listing :: remote_list where
  "kanto_listing limit offset =
     Inr [(''bulbasaur'', ''https://pokeapi.co/api/v2/pokemon/1/''),
          (''charmander'', ''https://pokeapi.co/api/v2/pokemon/4/''),
          (''charizard'', ''https://pokeapi.co/api/v2/pokemon/6/''),
          (''pikachu'', ''https://pokeapi.co/api/v2/pokemon/25/'')]"

definition kanto :: remote where
  "kanto k v =
     (if v = JStr ''pikachu'' then Inr (named 25 ''pikachu'')
      else if v = JStr ''charmander'' then Inr charmander_entity
      else if v = JStr ''charizard'' then Inr (named 6 ''charizard'')
      else Inl not_found)"

definition kanto_without_charizard :: remote where
  "kanto_without_charizard k v =
     (if v = JStr ''charmander'' then Inr charmander_entity else Inl not_found)"

definition listing_down :: remote_list where
  "listing_down limit offset = Inl not_found"




text \<open>Where reading a trace ends: the time from which the next start is allowed, and the
  task in progress. (Used to extend a trace at its end.)\<close>

fun trace_end :: "nat \<Rightarrow> (task \<times> nat) option \<Rightarrow> log_entry list \<Rightarrow> nat \<times> (task \<times> nat) option" where
  "trace_end gate busy [] = (gate, busy)"
| "trace_end gate busy (Started t tm # tr) = trace_end gate (Some (t, tm)) tr"
| "trace_end gate busy (Resolved t v tm # tr) = trace_end (tm + 100) None tr"
| "trace_end gate busy (Rejected t e tm # tr) = trace_end (tm + 100) None tr"

text \<open>What holds of the service between two events: there is at most one worker, the
  flag is set exactly while there is one, the queue is empty when there is none, and
  the worker's suspension point agrees with the end of the trace.\<close>

fun suspended_at ::
  "activity list \<Rightarrow> bool \<Rightarrow> task list \<Rightarrow> nat \<Rightarrow> nat \<times> (task \<times> nat) option \<Rightarrow> bool" where
  "suspended_at [] flag queue clock (gate, busy) =
     (\<not> flag \<and> queue = [] \<and> busy = None \<and> gate \<le> clock)"
| "suspended_at [AwaitRequest t] flag queue clock (gate, busy) =
     (flag \<and> (case busy of None \<Rightarrow> False | Some (t', since) \<Rightarrow> t' = t \<and> since \<le> clock))"
| "suspended_at [AwaitDelay due] flag queue clock (gate, busy) =
     (flag \<and> busy = None \<and> gate = due)"
| "suspended_at (w # w' # ws) flag queue clock (gate, busy) = False"

definition consistent :: "service \<Rightarrow> bool" where
  "consistent s =
     (spec_trace 0 None (trace s) \<and>
      suspended_at (workers s) (isProcessingQueue s) (requestQueue s) (now s)
        (trace_end 0 None (trace s)))"

text \<open>The worker's own continuation after a task has been started: its request
  settles, \<open>100\<close> ms pass, the timer fires.\<close>

definition one_round :: "event list" where
  "one_round = [Settles 0, Elapse 100, Fires 0]"

text \<open>Three tasks, the second of which fails.\<close>

definition task1 :: task where
  "task1 = \<lparr> tid = 1, outcome = Inr bulbasaur \<rparr>"

definition task2 :: task where
  "task2 = \<lparr> tid = 2, outcome = Inl not_found \<rparr>"

definition task3 :: task where
  "task3 = \<lparr> tid = 3, outcome = Inr dragonite \<rparr>"

definition busy_day :: "event list" where
  "busy_day =
     [Enqueue task1, Enqueue task2, Elapse 30, Settles 0, Enqueue task3, Elapse 100, Fires 0,
      Elapse 5, Settles 0, Elapse 250, Fires 0, Settles 0]"

definition busy_day_trace :: "log_entry list" where
  "busy_day_trace =
     [Started task1 0, Resolved task1 bulbasaur 30,
      Started task2 130, Rejected task2 not_found 135,
      Started task3 385, Resolved task3 dragonite 385]"

section \<open>Properties of the entity\<close>

subsection \<open>Auxiliary facts\<close>

lemma bind_Inl [simp]: "bind (Inl e) f = Inl e"
  by (simp add: bind_def)

lemma bind_Inr [simp]: "bind (Inr x) f = f x"
  by (simp add: bind_def)

lemma bind_Inr_iff: "bind m f = Inr y \<longleftrightarrow> (\<exists>x. m = Inr x \<and> f x = Inr y)"
  by (cases m) simp_all


text \<open>What a successful construction says about each member of the entity.\<close>

lemma validateAndSet_Inr:
  assumes "validateAndSet data = Inr p"
  shows "data \<noteq> JNull \<and> data \<noteq> JUndefined
    \<and> validateNumber (field data ''id'') ''ID'' True = Inr (id' p)
    \<and> validateString (field data ''name'') ''Name'' True = Inr (name p)
    \<and> validateNumber (field data ''height'') ''Height'' False = Inr (height p)
    \<and> validateNumber (field data ''weight'') ''Weight'' False = Inr (weight p)
    \<and> validateNumber (field data ''base_experience'') ''Base Experience'' False
        = Inr (base_experience p)
    \<and> validateArray (field data ''types'') ''Types'' False = Inr (types p)
    \<and> validateArray (field data ''abilities'') ''Abilities'' False = Inr (abilities p)
    \<and> validateArray (field data ''stats'') ''Stats'' False = Inr (stats p)
    \<and> validateObject (field data ''sprites'') ''Sprites'' False = Inr (sprites p)
    \<and> validateObject (field data ''cries'') ''Cries'' False = Inr (cries p)
    \<and> getTypeNames (types p) = Inr (typeNames p)
    \<and> getAbilityNames (abilities p) = Inr (abilityNames p)
    \<and> getStatTotal (stats p) = Inr (statTotal p)
    \<and> imageUrl p = getImageUrl (sprites p)
    \<and> primaryType p = getPrimaryType (typeNames p)"
  using assms unfolding validateAndSet_def bind_Inr_iff read_def
  by (auto split: if_splits)

lemma new_Pokemon_Inr:
  assumes "new_Pokemon data = Inr p"
  shows "validateAndSet data = Inr p"
proof (cases "data = JUndefined")
  case True
  with assms have "validateAndSet (JObj []) = Inr p"
    by (simp add: new_Pokemon_def)
  from validateAndSet_Inr[OF this] show ?thesis
    by (simp add: validateNumber_def)
next
  case False
  with assms show ?thesis by (simp add: new_Pokemon_def)
qed

lemmas construction_defs =
  new_Pokemon_def validateAndSet_def read_def opt_read_def validateNumber_def
  validateString_def validateArray_def validateObject_def isNaN_def getTypeNames_def
  getAbilityNames_def getStatTotal_def stat_value_def entry_name_def js_add_def trim_def
  is_space_def getImageUrl_def getPrimaryType_def stat_block_def stat_entry_def

lemma new_Pokemon_bulbasaur: "new_Pokemon bulbasaur = Inr bulbasaur_entity"
  by (simp add: construction_defs bulbasaur_def bulbasaur_entity_def)

lemma new_Pokemon_dragonite: "new_Pokemon dragonite = Inr dragonite_entity"
  by (simp add: construction_defs dragonite_def dragonite_entity_def)

subsection \<open>The stat total and the rarity tier\<close>







subsection \<open>The optional numeric members\<close>

lemma validateNumber_optional:
  "validateNumber v f False = Inr (if ToNumber v = NaN then Fin 0 else ToNumber v)"
  by (simp add: validateNumber_def)

text \<open>
  Claim C9 as stated fails: nothing in \<^verbatim>\<open>validateNumber\<close> looks at the sign, so a
  negative height is accepted and kept.
\<close>

theorem negative_height_is_kept:
  "new_Pokemon negative_height = Inr negative_height_entity
   \<and> height negative_height_entity = Fin (- 7)
   \<and> js_lt (JNum (height negative_height_entity)) (JNum (Fin 0))"
  by (simp add: construction_defs negative_height_def negative_height_entity_def
      js_lt_def js_less_def)

text \<open>
  Claim C9, amended. For every payload the constructor accepts, \<^verbatim>\<open>height\<close>,
  \<^verbatim>\<open>weight\<close> and \<^verbatim>\<open>base_experience\<close> of the entity are numbers other than
  \<^verbatim>\<open>NaN\<close>: \<open>0\<close> when the member is absent from the payload, and the payload's own
  value when that is a number (whatever its sign).
\<close>

theorem optional_numbers_default_to_zero:
  assumes "new_Pokemon data = Inr p"
  shows "(height p \<noteq> NaN
          \<and> (field data ''height'' = JUndefined \<longrightarrow> height p = Fin 0)
          \<and> (\<forall>n. field data ''height'' = JNum n \<and> n \<noteq> NaN \<longrightarrow> height p = n))
       \<and> (weight p \<noteq> NaN
          \<and> (field data ''weight'' = JUndefined \<longrightarrow> weight p = Fin 0)
          \<and> (\<forall>n. field data ''weight'' = JNum n \<and> n \<noteq> NaN \<longrightarrow> weight p = n))
       \<and> (base_experience p \<noteq> NaN
          \<and> (field data ''base_experience'' = JUndefined \<longrightarrow> base_experience p = Fin 0)
          \<and> (\<forall>n. field data ''base_experience'' = JNum n \<and> n \<noteq> NaN
                 \<longrightarrow> base_experience p = n))"
proof -
  from assms have v: "validateAndSet data = Inr p"
    by (rule new_Pokemon_Inr)
  have h: "height p = (if ToNumber (field data ''height'') = NaN then Fin 0
                       else ToNumber (field data ''height''))"
    using validateAndSet_Inr[OF v] by (simp add: validateNumber_optional)
  have w: "weight p = (if ToNumber (field data ''weight'') = NaN then Fin 0
                       else ToNumber (field data ''weight''))"
    using validateAndSet_Inr[OF v] by (simp add: validateNumber_optional)
  have b: "base_experience p = (if ToNumber (field data ''base_experience'') = NaN then Fin 0
                       else ToNumber (field data ''base_experience''))"
    using validateAndSet_Inr[OF v] by (simp add: validateNumber_optional)
  have "height p \<noteq> NaN
          \<and> (field data ''height'' = JUndefined \<longrightarrow> height p = Fin 0)
          \<and> (\<forall>n. field data ''height'' = JNum n \<and> n \<noteq> NaN \<longrightarrow> height p = n)"
    unfolding h by auto
  moreover have "weight p \<noteq> NaN
          \<and> (field data ''weight'' = JUndefined \<longrightarrow> weight p = Fin 0)
          \<and> (\<forall>n. field data ''weight'' = JNum n \<and> n \<noteq> NaN \<longrightarrow> weight p = n)"
    unfolding w by auto
  moreover have "base_experience p \<noteq> NaN
          \<and> (field data ''base_experience'' = JUndefined \<longrightarrow> base_experience p = Fin 0)
          \<and> (\<forall>n. field data ''base_experience'' = JNum n \<and> n \<noteq> NaN
                 \<longrightarrow> base_experience p = n)"
    unfolding b by auto
  ultimately show ?thesis by blast
qed

text \<open>On \<open>dragonite\<close> the three members are absent and come out as \<open>0\<close>; on
  \<open>bulbasaur\<close> they are \<open>7\<close>, \<open>69\<close> and \<open>64\<close> and are kept.\<close>

theorem optional_numbers_default_to_zero_witness:
  "new_Pokemon dragonite = Inr dragonite_entity
   \<and> field dragonite ''height'' = JUndefined \<and> height dragonite_entity = Fin 0
   \<and> field dragonite ''weight'' = JUndefined \<and> weight dragonite_entity = Fin 0
   \<and> field dragonite ''base_experience'' = JUndefined
   \<and> base_experience dragonite_entity = Fin 0
   \<and> new_Pokemon bulbasaur = Inr bulbasaur_entity
   \<and> field bulbasaur ''height'' = JNum (Fin 7) \<and> height bulbasaur_entity = Fin 7
   \<and> field bulbasaur ''weight'' = JNum (Fin 69) \<and> weight bulbasaur_entity = Fin 69
   \<and> field bulbasaur ''base_experience'' = JNum (Fin 64)
   \<and> base_experience bulbasaur_entity = Fin 64"
proof -
  have d: "field dragonite ''height'' = JUndefined" "field dragonite ''weight'' = JUndefined"
    "field dragonite ''base_experience'' = JUndefined"
    by (simp_all add: dragonite_def)
  have b: "field bulbasaur ''height'' = JNum (Fin 7)" "field bulbasaur ''weight'' = JNum (Fin 69)"
    "field bulbasaur ''base_experience'' = JNum (Fin 64)"
    by (simp_all add: bulbasaur_def)
  show ?thesis
    using optional_numbers_default_to_zero[OF new_Pokemon_dragonite]
      optional_numbers_default_to_zero[OF new_Pokemon_bulbasaur]
    by (simp add: d b new_Pokemon_dragonite new_Pokemon_bulbasaur)
qed

subsection \<open>What construction rejects\<close>






















section \<open>Properties of the API service\<close>

subsection \<open>Retries\<close>

lemma show_nat_3: "show_nat maxRetries = ''3''"
  by code_simp

lemma show_nat_404: "show_nat 404 = ''404''"
  by code_simp

lemma makeRequest_succeeds_after:
  assumes "attempt_result (net k) = Inr data" and "k \<le> maxRetries"
      and "\<forall>j. r \<le> j \<and> j < k \<longrightarrow> (\<exists>m. attempt_result (net j) = Inl m)"
      and "r \<le> k"
  shows "makeRequest net url r = (Inr data, map (\<lambda>j. retryDelay * 2 ^ j) [r..<k])"
  using assms(3,4)
proof (induction "k - r" arbitrary: r)
  case 0
  then have "r = k" by simp
  with assms(1) show ?case by (simp add: makeRequest.simps[of net url k])
next
  case (Suc d)
  then have lt: "r < k" and d: "d = k - Suc r" by auto
  from Suc.prems lt obtain m where m: "attempt_result (net r) = Inl m" by blast
  have ih: "makeRequest net url (Suc r) = (Inr data, map (\<lambda>j. retryDelay * 2 ^ j) [Suc r..<k])"
    using Suc.hyps(1)[OF d] Suc.prems lt by auto
  from lt assms(2) have "r < maxRetries" by simp
  then show ?case
    using lt by (simp add: makeRequest.simps[of net url r] m ih upt_conv_Cons)
qed

lemma makeRequest_exhausted:
  assumes "attempt_result (net maxRetries) = Inl cause"
      and "\<forall>j. r \<le> j \<and> j < maxRetries \<longrightarrow> (\<exists>m. attempt_result (net j) = Inl m)"
      and "r \<le> maxRetries"
  shows "makeRequest net url r =
           (Inl (Error (''Failed to fetch '' @ url @ '' after 3 retries: '' @ cause)),
            map (\<lambda>j. retryDelay * 2 ^ j) [r..<maxRetries])"
  using assms(2,3)
proof (induction "maxRetries - r" arbitrary: r)
  case 0
  then have "r = maxRetries" by simp
  with assms(1) show ?case by (simp add: makeRequest.simps[of net url maxRetries] show_nat_3)
next
  case (Suc d)
  then have lt: "r < maxRetries" and d: "d = maxRetries - Suc r" by auto
  from Suc.prems lt obtain m where m: "attempt_result (net r) = Inl m" by blast
  have ih: "makeRequest net url (Suc r) =
           (Inl (Error (''Failed to fetch '' @ url @ '' after 3 retries: '' @ cause)),
            map (\<lambda>j. retryDelay * 2 ^ j) [Suc r..<maxRetries])"
    using Suc.hyps(1)[OF d] Suc.prems lt by auto
  show ?case
    using lt by (simp add: makeRequest.simps[of net url r] m ih upt_conv_Cons)
qed

text \<open>
  Claim C3. An attempt fails when \<^verbatim>\<open>fetch\<close> is rejected, when the response is not
  \<^verbatim>\<open>ok\<close> or when its body does not parse. \<^verbatim>\<open>makeRequest\<close> makes up to
  three retries, waiting \<open>1000 * 2 ^ j\<close> ms before retry \<open>j + 1\<close>: if attempt \<open>k \<le> 3\<close>
  is the first to succeed, the call resolves with that attempt's payload after the waits
  \<open>1000 * 2 ^ j\<close> for \<open>j < k\<close>; two failures then a success wait
  \<open>retryDelay * (2 ^ 0 + 2 ^ 1)\<close> in all; and when all four attempts fail, the call
  fails, after \<open>1000\<close>, \<open>2000\<close> and \<open>4000\<close> ms, with an error whose message holds
  the url and the message of the last failure.
\<close>

theorem makeRequest_retries_with_backoff:
  "(k \<le> 3 \<and> (\<forall>j<k. \<exists>m. attempt_result (net j) = Inl m) \<and> attempt_result (net k) = Inr data
      \<longrightarrow> makeRequest net url 0 = (Inr data, map (\<lambda>j. 1000 * 2 ^ j) [0..<k]))
   \<and> ((\<forall>j<2. \<exists>m. attempt_result (net j) = Inl m) \<and> attempt_result (net 2) = Inr data
      \<longrightarrow> makeRequest net url 0 = (Inr data, [1000, 2000])
          \<and> sum_list (snd (makeRequest net url 0)) = retryDelay * (2 ^ 0 + 2 ^ 1))
   \<and> ((\<forall>j<3. \<exists>m. attempt_result (net j) = Inl m) \<and> attempt_result (net 3) = Inl cause
      \<longrightarrow> makeRequest net url 0 =
            (Inl (Error (''Failed to fetch '' @ url @ '' after 3 retries: '' @ cause)),
             [1000, 2000, 4000]))"
proof -
  have A: "makeRequest net url 0 = (Inr data, map (\<lambda>j. 1000 * 2 ^ j) [0..<k])"
    if "k \<le> 3" "\<forall>j<k. \<exists>m. attempt_result (net j) = Inl m" "attempt_result (net k) = Inr data"
    using that makeRequest_succeeds_after[of net k data 0 url]
    by (simp add: maxRetries_def retryDelay_def)
  have B: "makeRequest net url 0 = (Inr data, [1000, 2000])
          \<and> sum_list (snd (makeRequest net url 0)) = retryDelay * (2 ^ 0 + 2 ^ 1)"
    if "\<forall>j<2. \<exists>m. attempt_result (net j) = Inl m" "attempt_result (net 2) = Inr data"
  proof -
    have "makeRequest net url 0 = (Inr data, map (\<lambda>j. retryDelay * 2 ^ j) [0..<2])"
      using that makeRequest_succeeds_after[of net 2 data 0 url]
      by (simp add: maxRetries_def)
    moreover have "[0..<2] = [0, Suc 0]" by (simp add: upt_conv_Cons)
    ultimately have m: "makeRequest net url 0 = (Inr data, [1000, 2000])"
      by (simp add: retryDelay_def)
    show ?thesis by (simp add: m retryDelay_def)
  qed
  have C: "makeRequest net url 0 =
            (Inl (Error (''Failed to fetch '' @ url @ '' after 3 retries: '' @ cause)),
             [1000, 2000, 4000])"
    if "\<forall>j<3. \<exists>m. attempt_result (net j) = Inl m" "attempt_result (net 3) = Inl cause"
  proof -
    have "makeRequest net url 0 =
           (Inl (Error (''Failed to fetch '' @ url @ '' after 3 retries: '' @ cause)),
            map (\<lambda>j. retryDelay * 2 ^ j) [0..<maxRetries])"
      using that makeRequest_exhausted[of net cause 0 url] by (simp add: maxRetries_def)
    moreover have "[0..<maxRetries] = [0, Suc 0, 2]" by (simp add: maxRetries_def upt_conv_Cons)
    ultimately show ?thesis
      by (simp add: retryDelay_def)
  qed
  from A B C show ?thesis by blast
qed
text \<open>On \<open>flaky_net\<close> the third attempt's payload comes back after \<open>1000 + 2000\<close> ms;
  on \<open>dead_net\<close> the call fails after three retries with the last \<open>404\<close>.\<close>

theorem makeRequest_retries_with_backoff_witness:
  "makeRequest flaky_net ''https://pokeapi.co/api/v2/pokemon/1'' 0 = (Inr bulbasaur, [1000, 2000])
   \<and> sum_list (snd (makeRequest flaky_net ''https://pokeapi.co/api/v2/pokemon/1'' 0)) = 3000
   \<and> makeRequest dead_net ''https://pokeapi.co/api/v2/pokemon/99999'' 0 =
        (Inl (Error (''Failed to fetch https://pokeapi.co/api/v2/pokemon/99999''
                     @ '' after 3 retries: HTTP 404: Not Found'')),
         [1000, 2000, 4000])"
proof -
  have f: "\<forall>j<2. \<exists>m. attempt_result (flaky_net j) = Inl m"
    "attempt_result (flaky_net 2) = Inr bulbasaur"
    by (auto simp: flaky_net_def less_Suc_eq numeral_2_eq_2)
  have d: "\<forall>j<3. \<exists>m. attempt_result (dead_net j) = Inl m"
    "attempt_result (dead_net 3) = Inl ''HTTP 404: Not Found''"
    by (simp_all add: dead_net_def show_nat_404)
  have B: "makeRequest flaky_net ''https://pokeapi.co/api/v2/pokemon/1'' 0
             = (Inr bulbasaur, [1000, 2000])
           \<and> sum_list (snd (makeRequest flaky_net ''https://pokeapi.co/api/v2/pokemon/1'' 0))
             = retryDelay * (2 ^ 0 + 2 ^ 1)"
    using f makeRequest_retries_with_backoff[of 2 flaky_net bulbasaur
        "''https://pokeapi.co/api/v2/pokemon/1''" "[]"]
    by blast
  have C: "makeRequest dead_net ''https://pokeapi.co/api/v2/pokemon/99999'' 0 =
        (Inl (Error (''Failed to fetch '' @ ''https://pokeapi.co/api/v2/pokemon/99999''
                     @ '' after 3 retries: '' @ ''HTTP 404: Not Found'')),
         [1000, 2000, 4000])"
    using d makeRequest_retries_with_backoff[of 0 dead_net bulbasaur
        "''https://pokeapi.co/api/v2/pokemon/99999''" "''HTTP 404: Not Found''"]
    by blast
  from B C show ?thesis
    by (simp add: retryDelay_def)
qed

subsection \<open>Batches\<close>

lemma map_enumerate_nth:
  "map (\<lambda>(k, v). g k v) (enumerate 0 xs) = map (\<lambda>k. g k (xs ! k)) [0..<length xs]"
  by (rule nth_equalityI) (simp_all add: nth_enumerate_eq)

lemma zip_map_upt_nth:
  "zip xs (map h [0..<length xs]) = map (\<lambda>k. (xs ! k, h k)) [0..<length xs]"
  by (rule nth_equalityI) simp_all

lemma fulfilled_map:
  "fulfilled (map h ks) = map (\<lambda>k. projr (h k)) (filter (\<lambda>k. \<not> isl (h k)) ks)"
proof (induction ks)
  case Nil
  then show ?case by simp
next
  case (Cons k ks)
  then show ?case by (cases "h k") simp_all
qed

lemma rejected_map:
  "rejected (map (\<lambda>k. (a k, h k)) ks) = map (\<lambda>k. (a k, projl (h k))) (filter (\<lambda>k. isl (h k)) ks)"
proof (induction ks)
  case Nil
  then show ?case by simp
next
  case (Cons k ks)
  then show ?case by (cases "h k") simp_all
qed

lemma getPokemonBatch_nonempty:
  assumes "xs \<noteq> []"
  shows "getPokemonBatch remote (JArr xs) =
           (Inr (map (\<lambda>k. projr (getPokemonById remote k (xs ! k)))
                   (filter (\<lambda>k. \<not> isl (getPokemonById remote k (xs ! k))) [0..<length xs])),
            map (\<lambda>k. (xs ! k, projl (getPokemonById remote k (xs ! k))))
              (filter (\<lambda>k. isl (getPokemonById remote k (xs ! k))) [0..<length xs]))"
  using assms
  by (simp add: getPokemonBatch_def Let_def map_enumerate_nth zip_map_upt_nth fulfilled_map
      rejected_map)


text \<open>
  Claim C4. For a non-empty list of identifiers, \<^verbatim>\<open>getPokemonBatch\<close> never
  rejects: it resolves with the values of the fetches that succeeded, in the order of
  their identifiers (the positions \<open>k\<close> whose fetch did not fail, in increasing
  order), and writes one console line, with the identifier and the reason, for each
  fetch that failed.
\<close>

theorem getPokemonBatch_keeps_successes_in_order:
  assumes "xs \<noteq> []"
  shows "getPokemonBatch remote (JArr xs) =
           (Inr (map (\<lambda>k. projr (getPokemonById remote k (xs ! k)))
                   (filter (\<lambda>k. \<not> isl (getPokemonById remote k (xs ! k))) [0..<length xs])),
            map (\<lambda>k. (xs ! k, projl (getPokemonById remote k (xs ! k))))
              (filter (\<lambda>k. isl (getPokemonById remote k (xs ! k))) [0..<length xs]))"
  using assms by (rule getPokemonBatch_nonempty)

text \<open>The example of the specification: of the identifiers \<open>1\<close>, \<open>99999\<close> and \<open>4\<close>
  the second fails; the batch is the entities of \<open>1\<close> and \<open>4\<close>, in that order.\<close>

theorem getPokemonBatch_keeps_successes_in_order_witness:
  "getPokemonBatch small_catalog (JArr [JNum (Fin 1), JNum (Fin 99999), JNum (Fin 4)])
     = (Inr [bulbasaur_entity, charmander_entity], [(JNum (Fin 99999), not_found)])"
  using getPokemonBatch_keeps_successes_in_order
          [of "[JNum (Fin 1), JNum (Fin 99999), JNum (Fin 4)]" small_catalog]
  by (simp add: getPokemonById_def small_catalog_def upt_conv_Cons)

subsection \<open>Random identifiers\<close>








subsection \<open>Search\<close>

lemma starts_with_iff: "starts_with q s \<longleftrightarrow> (\<exists>b. s = q @ b)"
  by (induction q s rule: starts_with.induct) auto

lemma js_includes_iff: "js_includes s q \<longleftrightarrow> (\<exists>a b. s = a @ q @ b)"
proof (induction s)
  case Nil
  then show ?case by auto
next
  case (Cons c cs)
  show ?case
  proof
    assume "js_includes (c # cs) q"
    then consider "starts_with q (c # cs)" | "js_includes cs q" by auto
    then show "\<exists>a b. c # cs = a @ q @ b"
    proof cases
      case 1
      then obtain b where "c # cs = q @ b" by (auto simp: starts_with_iff)
      then have "c # cs = [] @ q @ b" by simp
      then show ?thesis by blast
    next
      case 2
      with Cons.IH obtain a b where "cs = a @ q @ b" by blast
      then have "c # cs = (c # a) @ q @ b" by simp
      then show ?thesis by blast
    qed
  next
    assume "\<exists>a b. c # cs = a @ q @ b"
    then obtain a b where ab: "c # cs = a @ q @ b" by blast
    show "js_includes (c # cs) q"
    proof (cases a)
      case Nil
      with ab have "starts_with q (c # cs)" by (auto simp: starts_with_iff)
      then show ?thesis by simp
    next
      case (Cons a0 a')
      with ab have "cs = a' @ q @ b" by simp
      with Cons.IH have "js_includes cs q" by blast
      then show ?thesis by simp
    qed
  qed
qed

lemma fulfilled_enumerate:
  "fulfilled (map (\<lambda>(k, m). g k m) (enumerate 0 ms)) =
     map (\<lambda>k. projr (g k (ms ! k))) (filter (\<lambda>k. \<not> isl (g k (ms ! k))) [0..<length ms])"
proof -
  have "map (\<lambda>(k, m). g k m) (enumerate 0 ms) = map (\<lambda>k. g k (ms ! k)) [0..<length ms]"
    by (rule nth_equalityI) (simp_all add: nth_enumerate_eq)
  moreover have "fulfilled (map h ks) = map (\<lambda>k. projr (h k)) (filter (\<lambda>k. \<not> isl (h k)) ks)"
    for h :: "nat \<Rightarrow> error + 'a" and ks
  proof (induction ks)
    case Nil
    then show ?case by simp
  next
    case (Cons k ks)
    then show ?case by (cases "h k") simp_all
  qed
  ultimately show ?thesis by simp
qed

lemma searchPokemon_exact:
  assumes "s \<noteq> []" and "getPokemonByName remote 0 (JStr (trim (toLowerCase s))) = Inr m"
  shows "searchPokemon remote remote_list (JStr s) limit = Inr [m]"
  using assms by (simp add: searchPokemon_def)

lemma searchPokemon_listing_fails:
  assumes "s \<noteq> []" and "getPokemonByName remote 0 (JStr (trim (toLowerCase s))) = Inl e"
      and "remote_list 1000 0 = Inl e'"
  shows "searchPokemon remote remote_list (JStr s) limit = Inl e'"
  using assms by (simp add: searchPokemon_def getPokemonList_def)

lemma searchPokemon_listing:
  assumes "s \<noteq> []" and "getPokemonByName remote 0 (JStr (trim (toLowerCase s))) = Inl e"
      and "remote_list 1000 0 = Inr results"
      and "matches = slice0 (filter (\<lambda>entry. js_includes (fst entry) (trim (toLowerCase s))) results)
                       (case limit of None \<Rightarrow> 20 | Some l \<Rightarrow> l)"
  shows "searchPokemon remote remote_list (JStr s) limit =
           Inr (map (\<lambda>k. projr (getPokemonByName remote (Suc k) (JStr (fst (matches ! k)))))
                  (filter (\<lambda>k. \<not> isl (getPokemonByName remote (Suc k) (JStr (fst (matches ! k)))))
                     [0..<length matches]))"
proof -
  have "fulfilled (map (\<lambda>(k, m). getPokemonByName remote (Suc k) (JStr (fst m))) (enumerate 0 matches))
      = map (\<lambda>k. projr (getPokemonByName remote (Suc k) (JStr (fst (matches ! k)))))
                  (filter (\<lambda>k. \<not> isl (getPokemonByName remote (Suc k) (JStr (fst (matches ! k)))))
                     [0..<length matches])"
    by (rule fulfilled_enumerate)
  then show ?thesis
    using assms by (auto simp: searchPokemon_def getPokemonList_def Let_def)
qed

lemmas search_defs =
  searchPokemon_def getPokemonByName_def getPokemonById_def getPokemonList_def
  toLowerCase_def lower_char_def trim_def is_space_def slice0_def enumerate_eq_zip upt_conv_Cons

text \<open>
  Claim C6 as stated fails: what \<^verbatim>\<open>searchPokemon\<close> returns in the fallback is not
  the matching entries but the entities fetched for them, and a match whose fetch fails
  is left out. Here the listing holds two names that contain \<open>char\<close> and the fetch of
  \<open>charizard\<close> fails.
\<close>

theorem matched_entry_is_dropped_when_its_fetch_fails:
  "kanto_listing 1000 0 =
     Inr [(''bulbasaur'', ''https://pokeapi.co/api/v2/pokemon/1/''),
          (''charmander'', ''https://pokeapi.co/api/v2/pokemon/4/''),
          (''charizard'', ''https://pokeapi.co/api/v2/pokemon/6/''),
          (''pikachu'', ''https://pokeapi.co/api/v2/pokemon/25/'')]
   \<and> js_includes (toLowerCase ''charmander'') (toLowerCase ''char'')
   \<and> js_includes (toLowerCase ''charizard'') (toLowerCase ''char'')
   \<and> searchPokemon kanto_without_charizard kanto_listing (JStr ''char'') None
       = Inr [charmander_entity]"
  by (simp add: search_defs kanto_without_charizard_def kanto_listing_def)

text \<open>
  Claim C6, amended. For a non-empty string query, \<^verbatim>\<open>searchPokemon\<close> first looks
  up the trimmed, lower-cased query as an exact name or identifier. If that succeeds the
  result is that single match, whatever the listing. If it fails, the listing of
  \<open>1000\<close> entries from offset \<open>0\<close> is loaded: when that fails the search fails with
  the same error; otherwise, for a listing whose names are lower-case and a limit
  \<open>lim \<ge> 0\<close> (\<open>20\<close> by default), the matches are the first \<open>lim\<close> entries
  whose name contains the query, and the result is the entities of those matches whose
  fetch succeeds, in listing order: at most \<open>lim\<close> of them, and the empty list when
  nothing matches.
\<close>

theorem searchPokemon_exact_lookup_then_listing:
  assumes "s \<noteq> []"
  shows
   "(\<forall>m. getPokemonByName remote 0 (JStr (trim (toLowerCase s))) = Inr m
        \<longrightarrow> (\<forall>any_list. searchPokemon remote any_list (JStr s) limit = Inr [m]))
  \<and> (\<forall>e. getPokemonByName remote 0 (JStr (trim (toLowerCase s))) = Inl e \<longrightarrow>
       (\<forall>e'. remote_list 1000 0 = Inl e'
             \<longrightarrow> searchPokemon remote remote_list (JStr s) limit = Inl e')
     \<and> (\<forall>results lim matches.
          remote_list 1000 0 = Inr results
          \<and> (\<forall>entry \<in> set results. toLowerCase (fst entry) = fst entry)
          \<and> lim = (case limit of None \<Rightarrow> 20 | Some l \<Rightarrow> l) \<and> 0 \<le> lim
          \<and> matches = take (nat lim)
                (filter (\<lambda>entry. \<exists>a b. toLowerCase (fst entry) = a @ trim (toLowerCase s) @ b)
                   results)
          \<longrightarrow> searchPokemon remote remote_list (JStr s) limit =
               Inr (map (\<lambda>k. projr (getPokemonByName remote (Suc k) (JStr (fst (matches ! k)))))
                      (filter (\<lambda>k. \<not> isl (getPokemonByName remote (Suc k)
                                               (JStr (fst (matches ! k)))))
                         [0..<length matches]))
            \<and> (\<forall>found. searchPokemon remote remote_list (JStr s) limit = Inr found
                   \<longrightarrow> int (length found) \<le> lim)
            \<and> (matches = [] \<longrightarrow> searchPokemon remote remote_list (JStr s) limit = Inr [])))"
proof (intro conjI allI impI)
  fix m any_list
  assume "getPokemonByName remote 0 (JStr (trim (toLowerCase s))) = Inr m"
  with assms show "searchPokemon remote any_list (JStr s) limit = Inr [m]"
    by (rule searchPokemon_exact)
next
  fix e e'
  assume "getPokemonByName remote 0 (JStr (trim (toLowerCase s))) = Inl e"
    and "remote_list 1000 0 = Inl e'"
  with assms show "searchPokemon remote remote_list (JStr s) limit = Inl e'"
    by (rule searchPokemon_listing_fails)
next
  fix e results lim matches
  assume miss: "getPokemonByName remote 0 (JStr (trim (toLowerCase s))) = Inl e"
    and h: "remote_list 1000 0 = Inr results
          \<and> (\<forall>entry \<in> set results. toLowerCase (fst entry) = fst entry)
          \<and> lim = (case limit of None \<Rightarrow> 20 | Some l \<Rightarrow> l) \<and> 0 \<le> lim
          \<and> matches = take (nat lim)
                (filter (\<lambda>entry. \<exists>a b. toLowerCase (fst entry) = a @ trim (toLowerCase s) @ b)
                   results)"
  from h have r: "remote_list 1000 0 = Inr results"
    and lc: "\<forall>entry \<in> set results. toLowerCase (fst entry) = fst entry"
    and lim: "lim = (case limit of None \<Rightarrow> 20 | Some l \<Rightarrow> l)" and nn: "0 \<le> lim"
    and md: "matches = take (nat lim)
                (filter (\<lambda>entry. \<exists>a b. toLowerCase (fst entry) = a @ trim (toLowerCase s) @ b)
                   results)"
    by blast+
  have "filter (\<lambda>entry. js_includes (fst entry) (trim (toLowerCase s))) results
        = filter (\<lambda>entry. \<exists>a b. toLowerCase (fst entry) = a @ trim (toLowerCase s) @ b) results"
    using lc by (intro filter_cong) (auto simp: js_includes_iff)
  with md lim nn have m: "matches =
       slice0 (filter (\<lambda>entry. js_includes (fst entry) (trim (toLowerCase s))) results)
         (case limit of None \<Rightarrow> 20 | Some l \<Rightarrow> l)"
    by (simp add: slice0_def)
  have eq: "searchPokemon remote remote_list (JStr s) limit =
               Inr (map (\<lambda>k. projr (getPokemonByName remote (Suc k) (JStr (fst (matches ! k)))))
                      (filter (\<lambda>k. \<not> isl (getPokemonByName remote (Suc k)
                                               (JStr (fst (matches ! k)))))
                         [0..<length matches]))"
    using assms miss r m by (rule searchPokemon_listing)
  have len: "length matches \<le> nat lim" unfolding md by simp
  have "length (filter (\<lambda>k. \<not> isl (getPokemonByName remote (Suc k) (JStr (fst (matches ! k)))))
                         [0..<length matches]) \<le> length matches"
    using length_filter_le[of _ "[0..<length matches]"] by simp
  with len nn have bound: "int (length (filter (\<lambda>k. \<not> isl (getPokemonByName remote (Suc k)
               (JStr (fst (matches ! k))))) [0..<length matches])) \<le> lim"
    by linarith
  show "searchPokemon remote remote_list (JStr s) limit =
               Inr (map (\<lambda>k. projr (getPokemonByName remote (Suc k) (JStr (fst (matches ! k)))))
                      (filter (\<lambda>k. \<not> isl (getPokemonByName remote (Suc k)
                                               (JStr (fst (matches ! k)))))
                         [0..<length matches]))"
    by (rule eq)
  show "int (length found) \<le> lim"
    if "searchPokemon remote remote_list (JStr s) limit = Inr found" for found
    using that bound unfolding eq by auto
  show "searchPokemon remote remote_list (JStr s) limit = Inr []" if "matches = []"
    unfolding eq using that by simp
qed

text \<open>An exact name is found without the listing (even when the listing is down); the
  fallback fails when the listing is down, returns the two entities for \<open>char\<close> and
  the empty list for \<open>mew\<close>.\<close>

theorem searchPokemon_exact_lookup_then_listing_witness:
  "searchPokemon kanto kanto_listing (JStr ''Pikachu '') None = Inr [named 25 ''pikachu'']
   \<and> searchPokemon kanto listing_down (JStr ''Pikachu '') None = Inr [named 25 ''pikachu'']
   \<and> searchPokemon kanto listing_down (JStr ''char'') None = Inl not_found
   \<and> searchPokemon kanto kanto_listing (JStr ''char'') None
       = Inr [charmander_entity, named 6 ''charizard'']
   \<and> searchPokemon kanto kanto_listing (JStr ''mew'') None = Inr []"
proof -
  let ?L = "[(''bulbasaur'', ''https://pokeapi.co/api/v2/pokemon/1/''),
             (''charmander'', ''https://pokeapi.co/api/v2/pokemon/4/''),
             (''charizard'', ''https://pokeapi.co/api/v2/pokemon/6/''),
             (''pikachu'', ''https://pokeapi.co/api/v2/pokemon/25/'')]"
  let ?M = "[(''charmander'', ''https://pokeapi.co/api/v2/pokemon/4/''),
             (''charizard'', ''https://pokeapi.co/api/v2/pokemon/6/'')]"
  have q: "trim (toLowerCase ''Pikachu '') = ''pikachu''" "trim (toLowerCase ''char'') = ''char''"
    "trim (toLowerCase ''mew'') = ''mew''"
    by code_simp+
  have hit: "getPokemonByName kanto 0 (JStr (trim (toLowerCase ''Pikachu '')))
             = Inr (named 25 ''pikachu'')"
    unfolding q by (simp add: search_defs kanto_def)
  have miss: "getPokemonByName kanto 0 (JStr (trim (toLowerCase ''char''))) = Inl not_found"
    "getPokemonByName kanto 0 (JStr (trim (toLowerCase ''mew''))) = Inl not_found"
    unfolding q by (simp_all add: search_defs kanto_def)
  have low: "\<forall>entry \<in> set ?L. toLowerCase (fst entry) = fst entry"
    by (simp add: toLowerCase_def lower_char_def)
  have mchar: "?M = take (nat 20)
        (filter (\<lambda>entry. \<exists>a b. toLowerCase (fst entry) = a @ trim (toLowerCase ''char'') @ b) ?L)"
    unfolding js_includes_iff[symmetric] q
    by (simp add: toLowerCase_def lower_char_def)
  have mmew: "[] = take (nat 20)
        (filter (\<lambda>entry. \<exists>a b. toLowerCase (fst entry) = a @ trim (toLowerCase ''mew'') @ b) ?L)"
    unfolding js_includes_iff[symmetric] q
    by (simp add: toLowerCase_def lower_char_def)
  have l: "kanto_listing 1000 0 = Inr ?L"
    by (simp add: kanto_listing_def)
  have d: "listing_down 1000 0 = Inl not_found"
    by (simp add: listing_down_def)
  have lim: "(20::int) = (case None of None \<Rightarrow> 20 | Some l \<Rightarrow> l) \<and> (0::int) \<le> 20"
    by simp
  have ne: "''Pikachu '' \<noteq> []" "''char'' \<noteq> []" "''mew'' \<noteq> []" by simp_all
  have r1: "searchPokemon kanto any_list (JStr ''Pikachu '') None = Inr [named 25 ''pikachu'']"
    for any_list
    using searchPokemon_exact_lookup_then_listing[OF ne(1), where remote = kanto and limit = None]
      hit by blast
  have r2: "searchPokemon kanto listing_down (JStr ''char'') None = Inl not_found"
    using searchPokemon_exact_lookup_then_listing[OF ne(2), where remote = kanto
        and remote_list = listing_down and limit = None] miss(1) d
    by blast
  have "searchPokemon kanto kanto_listing (JStr ''char'') None =
               Inr (map (\<lambda>k. projr (getPokemonByName kanto (Suc k) (JStr (fst (?M ! k)))))
                      (filter (\<lambda>k. \<not> isl (getPokemonByName kanto (Suc k) (JStr (fst (?M ! k)))))
                         [0..<length ?M]))"
    using searchPokemon_exact_lookup_then_listing[OF ne(2), where remote = kanto
        and remote_list = kanto_listing and limit = None] miss(1) l low mchar lim
    by blast
  then have r3: "searchPokemon kanto kanto_listing (JStr ''char'') None
       = Inr [charmander_entity, named 6 ''charizard'']"
    by (simp add: search_defs kanto_def)
  have r4: "searchPokemon kanto kanto_listing (JStr ''mew'') None = Inr []"
    using searchPokemon_exact_lookup_then_listing[OF ne(3), where remote = kanto
        and remote_list = kanto_listing and limit = None] miss(2) l low mmew lim
    by blast
  from r1 r2 r3 r4 show ?thesis by simp
qed

section \<open>Properties of the controller\<close>

















section \<open>Properties of the request queue\<close>

lemma spec_trace_append:
  "spec_trace g b (tr @ tr') =
     (spec_trace g b tr \<and> spec_trace (fst (trace_end g b tr)) (snd (trace_end g b tr)) tr')"
  by (induction g b tr rule: spec_trace.induct) auto

lemma trace_end_append:
  "trace_end g b (tr @ tr') = trace_end (fst (trace_end g b tr)) (snd (trace_end g b tr)) tr'"
  by (induction g b tr rule: trace_end.induct) auto

lemma started_append: "started (tr @ tr') = started tr @ started tr'"
  by (induction tr rule: started.induct) auto

lemma settled_append: "settled (tr @ tr') = settled tr @ settled tr'"
  by (induction tr rule: settled.induct) auto

lemma suspended_cases:
  assumes "suspended_at ws flag queue clock (gate, busy)"
  obtains (idle) "ws = []" "\<not> flag" "queue = []" "busy = None" "gate \<le> clock"
    | (request) t since where "ws = [AwaitRequest t]" "flag" "busy = Some (t, since)" "since \<le> clock"
    | (delay) "ws = [AwaitDelay gate]" "flag" "busy = None"
  using assms
  by (cases "(ws, flag, queue, clock, (gate, busy))" rule: suspended_at.cases)
     (auto split: option.splits)

lemma consistent_workers: "consistent s \<Longrightarrow> length (workers s) \<le> 1"
  unfolding consistent_def
  by (cases "trace_end 0 None (trace s)") (auto elim!: suspended_cases)

lemma consistent_new: "consistent new_service"
  by (simp add: consistent_def new_service_def)

lemma step_consistent:
  assumes "consistent s" "step e s = Some s'"
  shows "consistent s'
       \<and> started (trace s') @ requestQueue s' = started (trace s) @ requestQueue s @ enqueued [e]"
proof -
  obtain gate busy where te: "trace_end 0 None (trace s) = (gate, busy)"
    by (cases "trace_end 0 None (trace s)")
  from assms(1) have st: "spec_trace 0 None (trace s)"
    and su: "suspended_at (workers s) (isProcessingQueue s) (requestQueue s) (now s) (gate, busy)"
    by (simp_all add: consistent_def te)
  from su show ?thesis
  proof (cases rule: suspended_cases)
    case idle
    then show ?thesis
      using assms(2) st te
      by (cases e)
         (auto simp: consistent_def queueRequest_def processQueue_def request_settles_def
            timer_fires_def spec_trace_append trace_end_append started_append)
  next
    case (request t since)
    then show ?thesis
      using assms(2) st te
      by (cases e)
         (auto simp: consistent_def queueRequest_def processQueue_def request_settles_def
            timer_fires_def spec_trace_append trace_end_append started_append
            split: sum.splits if_splits)
  next
    case delay
    then show ?thesis
      using assms(2) st te
      by (cases e)
         (auto simp: consistent_def queueRequest_def processQueue_def request_settles_def
            timer_fires_def spec_trace_append trace_end_append started_append
            split: list.splits if_splits)
  qed
qed


lemma enqueued_Cons: "enqueued (e # es) = enqueued [e] @ enqueued es"
  by (cases e) simp_all

lemma run_consistent:
  "consistent s \<Longrightarrow> run evs s = Some s' \<Longrightarrow>
     consistent s'
     \<and> started (trace s') @ requestQueue s' = started (trace s) @ requestQueue s @ enqueued evs"
proof (induction evs arbitrary: s)
  case Nil
  then show ?case by simp
next
  case (Cons e es)
  from Cons.prems(2) obtain s1 where s1: "step e s = Some s1" and r: "run es s1 = Some s'"
    by (auto split: option.splits)
  from step_consistent[OF Cons.prems(1) s1] have c1: "consistent s1"
    and f1: "started (trace s1) @ requestQueue s1
             = started (trace s) @ requestQueue s @ enqueued [e]"
    by simp_all
  from Cons.IH[OF c1 r] have "consistent s'"
    and "started (trace s') @ requestQueue s' = started (trace s1) @ requestQueue s1 @ enqueued es"
    by simp_all
  with f1 show ?case
    by (metis append.assoc enqueued_Cons)
qed

lemma run_append:
  "run (es @ es') s = (case run es s of None \<Rightarrow> None | Some s1 \<Rightarrow> run es' s1)"
  by (induction es arbitrary: s) (auto split: option.splits)

lemma enqueue_while_busy:
  "isProcessingQueue s \<Longrightarrow>
     run (map Enqueue ts) s = Some (s\<lparr> requestQueue := requestQueue s @ ts \<rparr>)"
proof (induction ts arbitrary: s)
  case Nil
  then show ?case by simp
next
  case (Cons t ts)
  have "step (Enqueue t) s = Some (s\<lparr> requestQueue := requestQueue s @ [t] \<rparr>)"
    using Cons.prems by (simp add: queueRequest_def processQueue_def)
  moreover have "isProcessingQueue (s\<lparr> requestQueue := requestQueue s @ [t] \<rparr>)"
    using Cons.prems by simp
  ultimately show ?case
    using Cons.IH[of "s\<lparr> requestQueue := requestQueue s @ [t] \<rparr>"] by simp
qed

lemma rounds_drain:
  assumes "workers s = [AwaitRequest t]" "requestQueue s = q"
  shows "\<exists>s'. run (concat (replicate (Suc (length q)) one_round)) s = Some s'
      \<and> settled (trace s') = settled (trace s) @ map (\<lambda>t. (t, outcome t)) (t # q)
      \<and> started (trace s') = started (trace s) @ q
      \<and> requestQueue s' = [] \<and> workers s' = [] \<and> \<not> isProcessingQueue s'"
  using assms
proof (induction q arbitrary: s t)
  case Nil
  then show ?case
    by (cases "outcome t")
       (simp_all add: one_round_def request_settles_def timer_fires_def settled_append
          started_append)
next
  case (Cons u q)
  define s1 where "s1 = s\<lparr> trace := trace s @
                            [case outcome t of
                               Inr v \<Rightarrow> Resolved t v (now s)
                             | Inl e \<Rightarrow> Rejected t e (now s), Started u (now s + 100)],
                         workers := [AwaitRequest u], now := now s + 100, requestQueue := q \<rparr>"
  have r1: "run one_round s = Some s1"
    using Cons.prems
    by (simp add: one_round_def request_settles_def timer_fires_def s1_def)
  have "workers s1 = [AwaitRequest u]" "requestQueue s1 = q" by (simp_all add: s1_def)
  from Cons.IH[OF this] obtain s' where
    r2: "run (concat (replicate (Suc (length q)) one_round)) s1 = Some s'"
    and se: "settled (trace s') = settled (trace s1) @ map (\<lambda>t. (t, outcome t)) (u # q)"
    and sa: "started (trace s') = started (trace s1) @ q"
    and rest: "requestQueue s' = [] \<and> workers s' = [] \<and> \<not> isProcessingQueue s'"
    by blast
  have "run (concat (replicate (Suc (length (u # q))) one_round)) s = Some s'"
    using r1 r2 by (simp add: run_append)
  moreover have "settled (trace s1) = settled (trace s) @ [(t, outcome t)]"
    by (cases "outcome t") (simp_all add: s1_def settled_append)
  moreover have "started (trace s1) = started (trace s) @ [u]"
    by (cases "outcome t") (simp_all add: s1_def started_append)
  ultimately show ?case using se sa rest by auto
qed

text \<open>
  Claim C1. Whatever the events and their order (requests queued at any moment,
  operations taking any time, timers firing late), every state the service reaches has a
  trace in which operations are started and settled in turn, one at a time, each task
  being settled with its own outcome and the next one starting no earlier than \<open>100\<close>
  ms after the previous one settled; the tasks started so far followed by those still
  queued are the tasks in the order of their submission; and there is never more than
  one worker. Failures do not stop the worker: for any tasks, whatever their outcomes,
  once they are queued and the worker is left to run, all of them are started in order
  and each is settled with its own outcome, after which the queue is empty and the
  worker has ended.
\<close>

theorem queue_runs_tasks_in_order_one_at_a_time:
  "(\<forall>s. run evs new_service = Some s \<longrightarrow>
        spec_trace 0 None (trace s)
      \<and> started (trace s) @ requestQueue s = enqueued evs
      \<and> length (workers s) \<le> 1)
   \<and> (\<exists>s. run (map Enqueue ts @ concat (replicate (length ts) one_round)) new_service = Some s
        \<and> settled (trace s) = map (\<lambda>t. (t, outcome t)) ts
        \<and> started (trace s) = ts
        \<and> requestQueue s = [] \<and> workers s = [] \<and> \<not> isProcessingQueue s)"
proof -
  have A: "spec_trace 0 None (trace s)
      \<and> started (trace s) @ requestQueue s = enqueued evs
      \<and> length (workers s) \<le> 1" if "run evs new_service = Some s" for s
    using run_consistent[OF consistent_new that] consistent_workers[of s]
    by (simp add: consistent_def new_service_def)
  have B: "\<exists>s. run (map Enqueue ts @ concat (replicate (length ts) one_round)) new_service = Some s
        \<and> settled (trace s) = map (\<lambda>t. (t, outcome t)) ts
        \<and> started (trace s) = ts
        \<and> requestQueue s = [] \<and> workers s = [] \<and> \<not> isProcessingQueue s"
  proof (cases ts)
    case Nil
    then show ?thesis by (simp add: new_service_def)
  next
    case (Cons t q)
    define s0 where "s0 = \<lparr> requestQueue = [], isProcessingQueue = True,
        workers = [AwaitRequest t], now = 0, trace = [Started t 0] \<rparr>"
    have e1: "step (Enqueue t) new_service = Some s0"
      by (simp add: queueRequest_def processQueue_def new_service_def s0_def)
    have e2: "run (map Enqueue q) s0 = Some (s0\<lparr> requestQueue := q \<rparr>)"
      using enqueue_while_busy[of s0 q] by (simp add: s0_def)
    have "workers (s0\<lparr> requestQueue := q \<rparr>) = [AwaitRequest t]"
         "requestQueue (s0\<lparr> requestQueue := q \<rparr>) = q"
      by (simp_all add: s0_def)
    from rounds_drain[OF this] obtain s' where
      "run (concat (replicate (Suc (length q)) one_round)) (s0\<lparr> requestQueue := q \<rparr>) = Some s'"
      "settled (trace s') = settled (trace (s0\<lparr> requestQueue := q \<rparr>)) @ map (\<lambda>t. (t, outcome t)) (t # q)"
      "started (trace s') = started (trace (s0\<lparr> requestQueue := q \<rparr>)) @ q"
      "requestQueue s' = [] \<and> workers s' = [] \<and> \<not> isProcessingQueue s'"
      by blast
    then show ?thesis
      using e1 e2 Cons by (simp add: run_append s0_def)
  qed
  from A B show ?thesis by blast
qed

text \<open>A run with three tasks, the second of which is rejected: the third is queued
  while the first delay is running, and the timers fire late.\<close>

lemma run_busy_day:
  "run busy_day new_service =
     Some \<lparr> requestQueue = [], isProcessingQueue = True, workers = [AwaitDelay 485],
            now = 385, trace = busy_day_trace \<rparr>"
  by (simp add: busy_day_def busy_day_trace_def new_service_def queueRequest_def
      processQueue_def request_settles_def timer_fires_def task1_def task2_def task3_def)

theorem queue_runs_tasks_in_order_one_at_a_time_witness:
  "run busy_day new_service =
     Some \<lparr> requestQueue = [], isProcessingQueue = True, workers = [AwaitDelay 485],
            now = 385, trace = busy_day_trace \<rparr>
   \<and> spec_trace 0 None busy_day_trace
   \<and> started busy_day_trace = [task1, task2, task3]
   \<and> enqueued busy_day = [task1, task2, task3]
   \<and> settled busy_day_trace = [(task1, Inr bulbasaur), (task2, Inl not_found), (task3, Inr dragonite)]"
proof -
  from queue_runs_tasks_in_order_one_at_a_time[of busy_day] run_busy_day
  have "spec_trace 0 None busy_day_trace \<and> started busy_day_trace @ [] = enqueued busy_day"
    by fastforce
  moreover have "enqueued busy_day = [task1, task2, task3]"
    by (simp add: busy_day_def)
  moreover have "settled busy_day_trace
                 = [(task1, Inr bulbasaur), (task2, Inl not_found), (task3, Inr dragonite)]"
    by (simp add: busy_day_trace_def)
  ultimately show ?thesis using run_busy_day by simp
qed

end
